theory Spec2Isabelle
  imports Main
begin

section \<open>Values, property descriptors, objects and the heap\<close>

text \<open>
  The module \<^verbatim>\<open>src/promiseFns/promisify.js\<close> works by reflection on JavaScript
  objects, so the embedding carries an explicit heap. An address is an index into the
  heap. Addresses 0 to 5 are the built-in prototypes the code or the language refers to:
  \<^verbatim>\<open>Object.prototype\<close>, \<^verbatim>\<open>Function.prototype\<close>, \<^verbatim>\<open>Array.prototype\<close> (the three
  members of \<^verbatim>\<open>FORBIDDEN_PROTOTYPES\<close>), then \<^verbatim>\<open>Boolean.prototype\<close>,
  \<^verbatim>\<open>Number.prototype\<close> and \<^verbatim>\<open>String.prototype\<close> (where property access on a primitive
  continues).
\<close>

type_synonym addr = nat

text \<open>
  The values the module can meet as targets, property values, receivers and callback
  arguments. Numbers are integers here; the only symbols in play are the module's own
  \<^verbatim>\<open>USE_THIS\<close> and \<^verbatim>\<open>IS_PROMISIFIED\<close>, modelled below by a constructor and a flag.
\<close>

datatype val = VUndefined | VNull | VBool bool | VNum int | VStr string | VRef addr

datatype error = RangeError | TypeError | Thrown val

text \<open>
  A property descriptor as \<^verbatim>\<open>Object.getOwnPropertyDescriptor\<close> shows it: a data property
  with its value, or an accessor. A getter is modelled by the value it returns (\<open>None\<close>: no
  getter, \<^verbatim>\<open>desc.get\<close> is undefined); the flag tells whether a setter is present.
\<close>

datatype descriptor = Data val | Accessor "val option" bool

text \<open>The context captured by an adapted function: the sentinel \<^verbatim>\<open>USE_THIS\<close> or a value.\<close>

datatype ctx = USE_THIS | Ctx val

text \<open>The variables an adapted function closes over (the parameters of \<^verbatim>\<open>promisifyFunction\<close>).\<close>

record closure =
  c_fn :: val
  c_context :: ctx
  c_multiArgs :: bool
  c_dynamicLookupKey :: "string option"

text \<open>
  What makes an object invocable: a function written by the user, known by its source
  text (\<^verbatim>\<open>fn + ""\<close>), or an adapted function built by \<^verbatim>\<open>promisifyFunction\<close>.
\<close>

datatype callable = UserFn string | Adapted closure

record obj =
  props :: "(string \<times> descriptor) list"
  proto :: "addr option"
  call :: "callable option"
  marked :: bool

type_synonym heap = "obj list"

definition lookup :: "heap \<Rightarrow> addr \<Rightarrow> obj option" where
  "lookup h a = (if a < length h then Some (h ! a) else None)"

definition Object_prototype :: addr where "Object_prototype = 0"
definition Function_prototype :: addr where "Function_prototype = 1"
definition Array_prototype :: addr where "Array_prototype = 2"

definition FORBIDDEN_PROTOTYPES :: "addr list" where
  "FORBIDDEN_PROTOTYPES = [Array_prototype, Function_prototype, Object_prototype]"

definition Boolean_prototype :: addr where "Boolean_prototype = 3"
definition Number_prototype :: addr where "Number_prototype = 4"
definition String_prototype :: addr where "String_prototype = 5"

fun truthy :: "val \<Rightarrow> bool" where
  "truthy VUndefined = False"
| "truthy VNull = False"
| "truthy (VBool b) = b"
| "truthy (VNum n) = (n \<noteq> 0)"
| "truthy (VStr s) = (s \<noteq> [])"
| "truthy (VRef a) = True"

text \<open>Decimal names of the index properties of a string value.\<close>

fun digits :: "nat \<Rightarrow> string" where
  "digits n = (if n < 10 then [char_of (48 + n)]
               else digits (n div 10) @ [char_of (48 + n mod 10)])"

text \<open>
  \<^verbatim>\<open>Object.getOwnPropertyNames(v)\<close>: \<open>None\<close> when it throws (null, undefined, or an
  address that holds no object).
\<close>

fun getOwnPropertyNames :: "heap \<Rightarrow> val \<Rightarrow> string list option" where
  "getOwnPropertyNames h VUndefined = None"
| "getOwnPropertyNames h VNull = None"
| "getOwnPropertyNames h (VBool b) = Some []"
| "getOwnPropertyNames h (VNum n) = Some []"
| "getOwnPropertyNames h (VStr s) = Some (map digits [0..<length s] @ [''length''])"
| "getOwnPropertyNames h (VRef a) = map_option (\<lambda>ob. map fst (props ob)) (lookup h a)"

text \<open>\<^verbatim>\<open>Object.getOwnPropertyDescriptor(v, key)\<close> for a value that is not null or undefined.\<close>

fun getOwnPropertyDescriptor :: "heap \<Rightarrow> val \<Rightarrow> string \<Rightarrow> descriptor option" where
  "getOwnPropertyDescriptor h (VRef a) key =
     (case lookup h a of None \<Rightarrow> None | Some ob \<Rightarrow> map_of (props ob) key)"
| "getOwnPropertyDescriptor h (VStr s) key =
     (if key = ''length'' then Some (Data (VNum (int (length s))))
      else case find (\<lambda>i. digits i = key) [0..<length s] of
             None \<Rightarrow> None
           | Some i \<Rightarrow> Some (Data (VStr [s ! i])))"
| "getOwnPropertyDescriptor h v key = None"

text \<open>
  \<^verbatim>\<open>Object.getPrototypeOf(v)\<close>. JavaScript keeps prototype chains acyclic; the heap is
  numbered so that a prototype sits at a lower address than its heirs, and a link that
  does not is read as the end of the chain.
\<close>

fun getPrototypeOf :: "heap \<Rightarrow> val \<Rightarrow> val" where
  "getPrototypeOf h (VRef a) =
     (case lookup h a of
        None \<Rightarrow> VNull
      | Some ob \<Rightarrow> (case proto ob of None \<Rightarrow> VNull
                   | Some p \<Rightarrow> if p < a then VRef p else VNull))"
| "getPrototypeOf h (VBool b) = VRef Boolean_prototype"
| "getPrototypeOf h (VNum n) = VRef Number_prototype"
| "getPrototypeOf h (VStr s) = VRef String_prototype"
| "getPrototypeOf h v = VNull"

fun rank :: "val \<Rightarrow> nat" where
  "rank (VRef a) = Suc a"
| "rank (VBool b) = 7"
| "rank (VNum n) = 7"
| "rank (VStr s) = 7"
| "rank v = 0"

fun is_object :: "val \<Rightarrow> bool" where
  "is_object (VRef a) = True"
| "is_object v = False"

fun nullish :: "val \<Rightarrow> bool" where
  "nullish VUndefined = True"
| "nullish VNull = True"
| "nullish v = False"

fun is_forbidden :: "val \<Rightarrow> bool" where
  "is_forbidden (VRef a) = (a \<in> set FORBIDDEN_PROTOTYPES)"
| "is_forbidden v = False"

section \<open>Property access along the prototype chain\<close>

text \<open>
  \<open>get_from h v key\<close> is the read \<^verbatim>\<open>v[key]\<close> for a value that is not null or undefined:
  the closest link of the chain that owns \<open>key\<close> answers, an accessor with the value of its
  getter. \<open>get_prop\<close> adds the \<^verbatim>\<open>TypeError\<close> of a read on null or undefined.
\<close>

function get_from :: "heap \<Rightarrow> val \<Rightarrow> string \<Rightarrow> val" where
  "get_from h v key =
     (if nullish v then VUndefined
      else case getOwnPropertyDescriptor h v key of
             Some (Data x) \<Rightarrow> x
           | Some (Accessor g s) \<Rightarrow> (case g of Some x \<Rightarrow> x | None \<Rightarrow> VUndefined)
           | None \<Rightarrow> get_from h (getPrototypeOf h v) key)"
  by pat_completeness auto
termination
proof (relation "measure (\<lambda>(h, v, key). rank v)")
  show "wf (measure (\<lambda>(h, v, key). rank v))" by simp
next
  fix h :: heap and v :: val and key :: string
  assume "\<not> nullish v"
  then have "rank (getPrototypeOf h v) < rank v"
    by (cases v)
       (auto simp: Boolean_prototype_def Number_prototype_def String_prototype_def
             split: option.splits if_splits)
  then show "((h, getPrototypeOf h v, key), (h, v, key)) \<in> measure (\<lambda>(h, v, key). rank v)"
    by simp
qed

definition get_prop :: "heap \<Rightarrow> val \<Rightarrow> string \<Rightarrow> error + val" where
  "get_prop h v key = (if nullish v then Inl TypeError else Inr (get_from h v key))"

text \<open>
  The marker \<^verbatim>\<open>IS_PROMISIFIED\<close> is a symbol-keyed property; \<^verbatim>\<open>fn[IS_PROMISIFIED]\<close> is
  an ordinary read, so a marker on any link of the chain of \<open>v\<close> answers.
\<close>

fun own_marker :: "heap \<Rightarrow> val \<Rightarrow> bool" where
  "own_marker h (VRef a) = (case lookup h a of None \<Rightarrow> False | Some ob \<Rightarrow> marked ob)"
| "own_marker h v = False"

function has_marker :: "heap \<Rightarrow> val \<Rightarrow> bool" where
  "has_marker h v =
     (if nullish v then False
      else if own_marker h v then True
      else has_marker h (getPrototypeOf h v))"
  by pat_completeness auto
termination
proof (relation "measure (\<lambda>(h, v). rank v)")
  show "wf (measure (\<lambda>(h, v). rank v))" by simp
next
  fix h :: heap and v :: val
  assume "\<not> nullish v"
  then have "rank (getPrototypeOf h v) < rank v"
    by (cases v)
       (auto simp: Boolean_prototype_def Number_prototype_def String_prototype_def
             split: option.splits if_splits)
  then show "((h, getPrototypeOf h v), (h, v)) \<in> measure (\<lambda>(h, v). rank v)"
    by simp
qed

text \<open>\<^verbatim>\<open>isPromisified(fn)\<close>: reading a property of null or undefined throws.\<close>

definition isPromisified :: "heap \<Rightarrow> val \<Rightarrow> error + bool" where
  "isPromisified h fn = (if nullish fn then Inl TypeError else Inr (has_marker h fn))"

section \<open>Key discovery\<close>

text \<open>
  \<^verbatim>\<open>desc != null && desc.get == null && desc.set == null\<close>, the test of
  \<^verbatim>\<open>inheritedDataKeys\<close> on a descriptor.
\<close>

fun plain_descriptor :: "descriptor option \<Rightarrow> bool" where
  "plain_descriptor None = False"
| "plain_descriptor (Some (Data x)) = True"
| "plain_descriptor (Some (Accessor g s)) = (g = None \<and> \<not> s)"

text \<open>The inner \<^verbatim>\<open>for (const key of keys)\<close> loop, on the pair (foundKeys, visitedKeys).\<close>

fun scan_keys :: "heap \<Rightarrow> val \<Rightarrow> string list \<Rightarrow> string list \<times> string set
    \<Rightarrow> string list \<times> string set" where
  "scan_keys h ob [] fv = fv"
| "scan_keys h ob (key # keys) (foundKeys, visitedKeys) =
     scan_keys h ob keys
       (if key \<notin> visitedKeys
        then (if plain_descriptor (getOwnPropertyDescriptor h ob key)
              then foundKeys @ [key] else foundKeys,
              insert key visitedKeys)
        else (foundKeys, visitedKeys))"

text \<open>The \<^verbatim>\<open>while\<close> loop of \<^verbatim>\<open>inheritedDataKeys\<close>.\<close>

function inheritedDataKeys_loop :: "heap \<Rightarrow> val \<Rightarrow> string list \<Rightarrow> string set \<Rightarrow> string list" where
  "inheritedDataKeys_loop h ob foundKeys visitedKeys =
     (if truthy ob \<and> \<not> is_forbidden ob
      then (case getOwnPropertyNames h ob of
              None \<Rightarrow> foundKeys
            | Some keys \<Rightarrow>
                inheritedDataKeys_loop h (getPrototypeOf h ob)
                  (fst (scan_keys h ob keys (foundKeys, visitedKeys)))
                  (snd (scan_keys h ob keys (foundKeys, visitedKeys))))
      else foundKeys)"
  by pat_completeness auto
termination
proof (relation "measure (\<lambda>(h, v, f, vis). rank v)")
  show "wf (measure (\<lambda>(h, v, f, vis). rank v))" by simp
next
  fix h :: heap and ob :: val and foundKeys :: "string list" and visitedKeys :: "string set"
    and keys :: "string list"
  assume "truthy ob \<and> \<not> is_forbidden ob"
  then have "\<not> nullish ob" by (cases ob) auto
  then have "rank (getPrototypeOf h ob) < rank ob"
    by (cases ob)
       (auto simp: Boolean_prototype_def Number_prototype_def String_prototype_def
             split: option.splits if_splits)
  then show "((h, getPrototypeOf h ob, fst (scan_keys h ob keys (foundKeys, visitedKeys)),
               snd (scan_keys h ob keys (foundKeys, visitedKeys))),
              (h, ob, foundKeys, visitedKeys)) \<in> measure (\<lambda>(h, v, f, vis). rank v)"
    by simp
qed

definition inheritedDataKeys :: "heap \<Rightarrow> val \<Rightarrow> string list" where
  "inheritedDataKeys h ob = inheritedDataKeys_loop h ob [] {}"

section \<open>The two patterns\<close>

text \<open>\<^verbatim>\<open>IDENTIFIER_REGEX = /^[a-z$_][a-z$_0-9]*$/i\<close>.\<close>

definition id_start :: "char \<Rightarrow> bool" where
  "id_start c = (c \<in> set ''abcdefghijklmnopqrstuvwxyzABCDEFGHIJKLMNOPQRSTUVWXYZ$_'')"

definition id_part :: "char \<Rightarrow> bool" where
  "id_part c = (id_start c \<or> c \<in> set ''0123456789'')"

fun isIdentifier :: "string \<Rightarrow> bool" where
  "isIdentifier [] = False"
| "isIdentifier (c # cs) = (id_start c \<and> list_all id_part cs)"

text \<open>
  \<^verbatim>\<open>THIS_ASSIGNMENT_PATTERN = /this\s*\.\s*\S+\s*=/\<close>. \<open>after_this s\<close> decides whether
  the rest of the pattern matches at the start of \<open>s\<close>: blanks, a dot, blanks, a run of
  non-blank characters that either holds an equals sign after its first character or is
  followed, after blanks, by one.
\<close>

definition is_space :: "char \<Rightarrow> bool" where
  "is_space c = (c \<in> set [CHR 0x20, CHR 0x09, CHR 0x0A, CHR 0x0B, CHR 0x0C, CHR 0x0D, CHR 0xA0])"

definition after_this :: "string \<Rightarrow> bool" where
  "after_this s =
     (case dropWhile is_space s of
        [] \<Rightarrow> False
      | c # s2 \<Rightarrow>
          c = CHR ''.'' \<and>
          (let s3 = dropWhile is_space s2;
               t = takeWhile (\<lambda>c. \<not> is_space c) s3;
               r = dropWhile is_space (dropWhile (\<lambda>c. \<not> is_space c) s3)
           in t \<noteq> [] \<and> (CHR ''='' \<in> set (tl t) \<or> (r \<noteq> [] \<and> hd r = CHR ''=''))))"

fun THIS_ASSIGNMENT_PATTERN_test :: "string \<Rightarrow> bool" where
  "THIS_ASSIGNMENT_PATTERN_test [] = False"
| "THIS_ASSIGNMENT_PATTERN_test (c # cs) =
     ((take 4 (c # cs) = ''this'' \<and> after_this (drop 4 (c # cs)))
      \<or> THIS_ASSIGNMENT_PATTERN_test cs)"

section \<open>Eligibility\<close>

definition defaultFilter :: "string \<Rightarrow> bool" where
  "defaultFilter name = (isIdentifier name \<and> take 1 name \<noteq> ''_'' \<and> name \<noteq> ''constructor'')"

text \<open>\<^verbatim>\<open>typeof fn === 'function'\<close>.\<close>

fun is_function :: "heap \<Rightarrow> val \<Rightarrow> bool" where
  "is_function h (VRef a) = (case lookup h a of None \<Rightarrow> False | Some ob \<Rightarrow> call ob \<noteq> None)"
| "is_function h v = False"

definition hasPromisified :: "heap \<Rightarrow> val \<Rightarrow> string \<Rightarrow> string \<Rightarrow> error + bool" where
  "hasPromisified h ob key suffix =
     (case getOwnPropertyDescriptor h ob (key @ suffix) of
        None \<Rightarrow> Inr False
      | Some (Accessor g s) \<Rightarrow> if g \<noteq> None \<or> s then Inr True else isPromisified h VUndefined
      | Some (Data x) \<Rightarrow> isPromisified h x)"

text \<open>
  A caller's filter is called as \<^verbatim>\<open>filter(key, fn, obj, passesFilter)\<close>; the model takes
  it as a function to the truth value of its result.
\<close>

type_synonym filter_fn = "string \<Rightarrow> val \<Rightarrow> val \<Rightarrow> bool \<Rightarrow> bool"

definition shouldPromisify :: "heap \<Rightarrow> string \<Rightarrow> string \<Rightarrow> val \<Rightarrow> filter_fn option \<Rightarrow> error + bool" where
  "shouldPromisify h key suffix ob filt =
     (let fn = get_from h ob key in
      if \<not> is_function h fn then Inr False
      else if has_marker h fn then Inr False
      else case hasPromisified h ob key suffix of
             Inl e \<Rightarrow> Inl e
           | Inr True \<Rightarrow> Inr False
           | Inr False \<Rightarrow>
               (let passesFilter = defaultFilter key;
                    passesFilter = (case filt of Some f \<Rightarrow> f key fn ob passesFilter
                                    | None \<Rightarrow> passesFilter)
                in if \<not> passesFilter then Inr False else Inr True))"

text \<open>\<^verbatim>\<open>Array.prototype.filter\<close> with a callback that may throw.\<close>

fun filter_keys :: "(string \<Rightarrow> error + bool) \<Rightarrow> string list \<Rightarrow> error + string list" where
  "filter_keys p [] = Inr []"
| "filter_keys p (key # keys) =
     (case p key of
        Inl e \<Rightarrow> Inl e
      | Inr b \<Rightarrow> (case filter_keys p keys of
                    Inl e \<Rightarrow> Inl e
                  | Inr ks \<Rightarrow> Inr (if b then key # ks else ks)))"

definition getFunctionsToPromisify :: "heap \<Rightarrow> val \<Rightarrow> string \<Rightarrow> filter_fn option
    \<Rightarrow> error + string list" where
  "getFunctionsToPromisify h ob suffix filt =
     filter_keys (\<lambda>key. shouldPromisify h key suffix ob filt) (inheritedDataKeys h ob)"

section \<open>Class-likeness\<close>

text \<open>
  The text of an adapted function is the function expression of \<^verbatim>\<open>promisifyFunction\<close>
  (line breaks written as blanks).
\<close>

definition adapter_source :: string where
  "adapter_source = ''function(...args) { if (context === USE_THIS) { context = this; } if (dynamicLookupKey) { fn = context[dynamicLookupKey]; } return new Bluebird((resolve, reject) => { let resolver = createResolver({ resolve, reject, multiArgs }); return fn.apply(context, [...args, resolver]); }); }''"

fun source_text :: "callable \<Rightarrow> string" where
  "source_text (UserFn src) = src"
| "source_text (Adapted c) = adapter_source"

text \<open>
  \<^verbatim>\<open>isClass(fn)\<close>. The only statement of the \<^verbatim>\<open>try\<close> block that can throw in the
  model is \<^verbatim>\<open>Object.getOwnPropertyNames(fn.prototype)\<close>, on a prototype that is null or
  undefined; the \<^verbatim>\<open>catch\<close> returns false.
\<close>

definition isClass :: "heap \<Rightarrow> val \<Rightarrow> bool" where
  "isClass h fn =
     (if is_function h fn then
        (case getOwnPropertyNames h (get_from h fn ''prototype'') of
           None \<Rightarrow> False
         | Some keys \<Rightarrow>
             (let hasMethods = length keys > 1;
                  hasMethodsOtherThanConstructor =
                    (length keys > 0 \<and> \<not> (length keys = 1 \<and> keys ! 0 = ''constructor''));
                  hasThisAssignmentAndStaticMethods =
                    ((case fn of
                        VRef a \<Rightarrow> (case lookup h a of
                                     Some ob \<Rightarrow> (case call ob of
                                                   Some c \<Rightarrow> THIS_ASSIGNMENT_PATTERN_test (source_text c)
                                                 | None \<Rightarrow> False)
                                   | None \<Rightarrow> False)
                      | _ \<Rightarrow> False)
                     \<and> (case getOwnPropertyNames h fn of
                          Some ns \<Rightarrow> length ns > 0 | None \<Rightarrow> False))
              in if hasMethods \<or> hasMethodsOtherThanConstructor
                    \<or> hasThisAssignmentAndStaticMethods
                 then True else False))
      else False)"

section \<open>Building and installing adapted functions\<close>

text \<open>
  \<^verbatim>\<open>promisifyFunction\<close> allocates the function object (own properties \<^verbatim>\<open>length\<close>,
  \<^verbatim>\<open>name\<close>, \<^verbatim>\<open>prototype\<close>, prototype \<^verbatim>\<open>Function.prototype\<close>), defines the marker on
  it, and returns it. The object behind its \<^verbatim>\<open>prototype\<close> property is allocated with it.
\<close>

definition promisifyFunction :: "heap \<Rightarrow> closure \<Rightarrow> heap \<times> val" where
  "promisifyFunction h c =
     (h @ [\<lparr>props = [(''length'', Data (VNum 0)),
                     (''name'', Data (VStr ''promisifiedFunction'')),
                     (''prototype'', Data (VRef (Suc (length h))))],
            proto = Some Function_prototype, call = Some (Adapted c), marked = True\<rparr>,
           \<lparr>props = [(''constructor'', Data (VRef (length h)))],
            proto = Some Object_prototype, call = None, marked = False\<rparr>],
      VRef (length h))"

text \<open>
  The assignment \<^verbatim>\<open>obj[key] = v\<close>. Properties are taken as writable and objects as
  extensible, and no inherited setter intercepts: an own data property gets the new value,
  an own accessor keeps the object as it is (its setter is outside the model), a missing
  one is appended. On a primitive the assignment has no effect.
\<close>

fun put :: "(string \<times> descriptor) list \<Rightarrow> string \<Rightarrow> val \<Rightarrow> (string \<times> descriptor) list" where
  "put [] key v = [(key, Data v)]"
| "put ((k, d) # ps) key v =
     (if k = key then (case d of Data x \<Rightarrow> (k, Data v) # ps | Accessor g s \<Rightarrow> (k, d) # ps)
      else (k, d) # put ps key v)"

fun set_prop :: "heap \<Rightarrow> val \<Rightarrow> string \<Rightarrow> val \<Rightarrow> heap" where
  "set_prop h (VRef a) key v =
     (case lookup h a of None \<Rightarrow> h
      | Some ob \<Rightarrow> h[a := ob\<lparr>props := put (props ob) key v\<rparr>])"
| "set_prop h w key v = h"

text \<open>
  A caller's promisifier is called as \<^verbatim>\<open>promisifier(obj[key], thunk)\<close>, where the thunk
  builds the default adapted function; the model takes it as a function of the original
  value and of the thunk's result.
\<close>

type_synonym promisifier_fn = "val \<Rightarrow> val \<Rightarrow> val"

text \<open>The body of the \<^verbatim>\<open>for\<close> loop of \<^verbatim>\<open>internalPromisifyAll\<close>.\<close>

definition install_key :: "val \<Rightarrow> string \<Rightarrow> promisifier_fn option \<Rightarrow> bool \<Rightarrow> string \<Rightarrow> heap \<Rightarrow> heap" where
  "install_key ob suffix promisifier multiArgs key h =
     (let fn = get_from h ob key;
          (h1, adapted) = promisifyFunction h
             \<lparr>c_fn = fn, c_context = USE_THIS, c_multiArgs = multiArgs,
              c_dynamicLookupKey = Some key\<rparr>;
          promisified = (case promisifier of Some p \<Rightarrow> p fn adapted | None \<Rightarrow> adapted)
      in set_prop h1 ob (key @ suffix) promisified)"

text \<open>
  \<^verbatim>\<open>internalPromisifyAll\<close> receives the filter and calls
  \<^verbatim>\<open>getFunctionsToPromisify(obj, suffix)\<close>, whose third parameter is then undefined. The
  result is the exception thrown, if any, and the heap; the function returns no value.
\<close>

definition internalPromisifyAll :: "heap \<Rightarrow> val \<Rightarrow> string \<Rightarrow> filter_fn option
    \<Rightarrow> promisifier_fn option \<Rightarrow> bool \<Rightarrow> error option \<times> heap" where
  "internalPromisifyAll h ob suffix filt promisifier multiArgs =
     (case getFunctionsToPromisify h ob suffix None of
        Inl e \<Rightarrow> (Some e, h)
      | Inr functionKeys \<Rightarrow>
          (None, fold (install_key ob suffix promisifier multiArgs) functionKeys h))"

record options =
  o_context :: val
  o_multiArgs :: bool
  o_suffix :: val
  o_filter :: "filter_fn option"
  o_promisifier :: "promisifier_fn option"

text \<open>The defaults of \<^verbatim>\<open>promisifyAll\<close>.\<close>

definition default_options :: options where
  "default_options = \<lparr>o_context = VNull, o_multiArgs = False, o_suffix = VStr ''Async'',
                       o_filter = None, o_promisifier = None\<rparr>"

text \<open>The \<^verbatim>\<open>for\<close> loop of \<^verbatim>\<open>promisifyAll\<close> over the keys discovered beforehand.\<close>

fun class_loop :: "val \<Rightarrow> string \<Rightarrow> filter_fn option \<Rightarrow> promisifier_fn option \<Rightarrow> bool
    \<Rightarrow> string list \<Rightarrow> heap \<Rightarrow> error option \<times> heap" where
  "class_loop ob suffix filt promisifier multiArgs [] h = (None, h)"
| "class_loop ob suffix filt promisifier multiArgs (key # keys) h =
     (let fn = get_from h ob key in
      if key \<noteq> ''constructor'' \<and> isClass h fn then
        (case internalPromisifyAll h (get_from h fn ''prototype'') suffix filt promisifier multiArgs of
           (Some e, h1) \<Rightarrow> (Some e, h1)
         | (None, h1) \<Rightarrow>
             (case internalPromisifyAll h1 fn suffix filt promisifier multiArgs of
                (Some e, h2) \<Rightarrow> (Some e, h2)
              | (None, h2) \<Rightarrow> class_loop ob suffix filt promisifier multiArgs keys h2))
      else class_loop ob suffix filt promisifier multiArgs keys h)"

text \<open>
  \<^verbatim>\<open>Bluebird.promisifyAll(obj, options)\<close>: the exception thrown or the value returned,
  and the heap. The value returned is that of \<^verbatim>\<open>internalPromisifyAll\<close>, which has no
  \<^verbatim>\<open>return\<close> statement.
\<close>

definition promisifyAll :: "heap \<Rightarrow> val \<Rightarrow> options \<Rightarrow> (error + val) \<times> heap" where
  "promisifyAll h ob opts =
     (case o_suffix opts of
        VStr suffix \<Rightarrow>
          if \<not> isIdentifier suffix then (Inl RangeError, h)
          else
            (case class_loop ob suffix (o_filter opts) (o_promisifier opts) (o_multiArgs opts)
                    (inheritedDataKeys h ob) h of
               (Some e, h1) \<Rightarrow> (Inl e, h1)
             | (None, h1) \<Rightarrow>
                 (case internalPromisifyAll h1 ob suffix (o_filter opts) (o_promisifier opts)
                         (o_multiArgs opts) of
                    (Some e, h2) \<Rightarrow> (Inl e, h2)
                  | (None, h2) \<Rightarrow> (Inr VUndefined, h2)))
      | _ \<Rightarrow> (Inl RangeError, h))"

text \<open>\<^verbatim>\<open>Bluebird.promisify(fn, {context = USE_THIS, multiArgs = false})\<close>.\<close>

definition promisify :: "heap \<Rightarrow> val \<Rightarrow> ctx \<Rightarrow> bool \<Rightarrow> heap \<times> val" where
  "promisify h fn context multiArgs =
     promisifyFunction h \<lparr>c_fn = fn, c_context = context, c_multiArgs = multiArgs,
                          c_dynamicLookupKey = None\<rparr>"

section \<open>Calling an adapted function\<close>

text \<open>
  What the completion callback does to the future: \<^verbatim>\<open>reject(err)\<close>, \<^verbatim>\<open>resolve(value)\<close>
  or \<^verbatim>\<open>resolve(Bluebird.all(values))\<close>.
\<close>

datatype settle = Reject val | Resolve val | ResolveAll "val list"

text \<open>
  \<^verbatim>\<open>createResolver\<close>: the callback, applied to its first argument \<open>err\<close> and the list of
  the arguments after it.
\<close>

definition createResolver :: "bool \<Rightarrow> val \<Rightarrow> val list \<Rightarrow> settle" where
  "createResolver multiArgs err vals =
     (if multiArgs then (if truthy err then Reject err else ResolveAll vals)
      else (if truthy err then Reject err
            else Resolve (case vals of [] \<Rightarrow> VUndefined | v # rest \<Rightarrow> v)))"

text \<open>
  A call of an adapted function either throws before the future is constructed, or reaches
  the executor, which applies a function to a receiver and to the arguments followed by the
  resolver (known by its \<open>multiArgs\<close>).
\<close>

datatype outcome = Throws error | Applies val val "val list" bool

text \<open>
  The body of \<^verbatim>\<open>promisifiedFunction\<close>, called on the adapted function at address \<open>g\<close>
  with receiver \<open>this\<close>. The assignments to the closure variables \<^verbatim>\<open>context\<close> and
  \<^verbatim>\<open>fn\<close> are written back to the closure.
\<close>

definition call_adapted :: "heap \<Rightarrow> addr \<Rightarrow> val \<Rightarrow> val list \<Rightarrow> (outcome \<times> heap) option" where
  "call_adapted h g this args =
     (case lookup h g of
        None \<Rightarrow> None
      | Some ob \<Rightarrow>
         (case call ob of
            Some (Adapted c) \<Rightarrow>
              (let context = (case c_context c of USE_THIS \<Rightarrow> this | Ctx v \<Rightarrow> v);
                   c1 = c\<lparr>c_context := Ctx context\<rparr>
               in case (case c_dynamicLookupKey c of
                          None \<Rightarrow> Inr (c_fn c)
                        | Some key \<Rightarrow> if key = [] then Inr (c_fn c) else get_prop h context key) of
                    Inl e \<Rightarrow> Some (Throws e, h[g := ob\<lparr>call := Some (Adapted c1)\<rparr>])
                  | Inr fn \<Rightarrow>
                      Some (Applies fn context args (c_multiArgs c),
                            h[g := ob\<lparr>call := Some (Adapted (c1\<lparr>c_fn := fn\<rparr>))\<rparr>]))
          | _ \<Rightarrow> None))"







text \<open>Two calls in a row of the same adapted function, through two receivers.\<close>

definition call_twice :: "heap \<Rightarrow> addr \<Rightarrow> val \<Rightarrow> val \<Rightarrow> val list \<Rightarrow> (outcome \<times> outcome) option" where
  "call_twice h g this1 this2 args =
     (case call_adapted h g this1 args of
        None \<Rightarrow> None
      | Some (r1, h1) \<Rightarrow> (case call_adapted h1 g this2 args of
                           None \<Rightarrow> None
                         | Some (r2, h2) \<Rightarrow> Some (r1, r2)))"

section \<open>The closest owner of a name\<close>


text \<open>A descriptor is an accessor when it has a getter or a setter.\<close>

fun is_accessor :: "descriptor \<Rightarrow> bool" where
  "is_accessor (Data x) = False"
| "is_accessor (Accessor g s) = (g \<noteq> None \<or> s)"

section \<open>Class-likeness as the specification words it\<close>



section \<open>What a conversion may change\<close>


section \<open>Heaps that grow by conversions\<close>









section \<open>Example heaps\<close>

text \<open>The six built-in prototypes, without their methods.\<close>

definition plain :: "(string \<times> descriptor) list \<Rightarrow> addr \<Rightarrow> obj" where
  "plain ps p = \<lparr>props = ps, proto = Some p, call = None, marked = False\<rparr>"

text \<open>
  A function written as a method or as an arrow function: it has the own properties
  \<^verbatim>\<open>length\<close> and \<^verbatim>\<open>name\<close> and no \<^verbatim>\<open>prototype\<close> property.
\<close>

definition method_fn :: "string \<Rightarrow> string \<Rightarrow> obj" where
  "method_fn name src =
     \<lparr>props = [(''length'', Data (VNum 1)), (''name'', Data (VStr name))],
      proto = Some Function_prototype, call = Some (UserFn src), marked = False\<rparr>"

text \<open>
  A function written with \<^verbatim>\<open>function\<close>: it has a \<^verbatim>\<open>prototype\<close> property as well, here
  followed by its static properties.
\<close>

definition constructor_fn :: "string \<Rightarrow> string \<Rightarrow> addr \<Rightarrow> (string \<times> descriptor) list \<Rightarrow> obj" where
  "constructor_fn name src p statics =
     \<lparr>props = [(''length'', Data (VNum 0)), (''name'', Data (VStr name)),
               (''prototype'', Data (VRef p))] @ statics,
      proto = Some Function_prototype, call = Some (UserFn src), marked = False\<rparr>"

definition builtins :: heap where
  "builtins =
     [\<lparr>props = [], proto = None, call = None, marked = False\<rparr>,
      \<lparr>props = [], proto = Some Object_prototype,
       call = Some (UserFn ''function () { [native code] }''), marked = False\<rparr>,
      plain [] Object_prototype, plain [] Object_prototype, plain [] Object_prototype,
      plain [] Object_prototype]"

text \<open>A callback-style method at 6 and two plain objects at 7 and 8.\<close>

definition two_receivers :: heap where
  "two_receivers = builtins @
     [method_fn ''f'' ''f(cb) { cb(null, this); }'',
      plain [] Object_prototype, plain [] Object_prototype]"

text \<open>
  The object \<^verbatim>\<open>{ foo: f, _bar: f }\<close> at 6 and the function \<^verbatim>\<open>f\<close> at 7.
\<close>

definition foo_bar :: heap where
  "foo_bar = builtins @
     [plain [(''foo'', Data (VRef 7)), (''_bar'', Data (VRef 7))] Object_prototype,
      method_fn ''f'' ''(cb) => cb(null, 1)'']"

text \<open>The empty object \<^verbatim>\<open>{}\<close> at 6.\<close>

definition empty_object :: heap where
  "empty_object = builtins @ [plain [] Object_prototype]"

text \<open>
  A base object at 6 with the method \<^verbatim>\<open>m\<close> (the function at 7), a derived object at 8
  that extends it, an object at 9 that extends the base, an object at 10 that extends the
  derived object, and at 11 the function that will override \<^verbatim>\<open>m\<close>.
\<close>

definition base_derived :: heap where
  "base_derived = builtins @
     [plain [(''m'', Data (VRef 7))] Object_prototype,
      method_fn ''m'' ''m(cb) { cb(null, 1); }'',
      plain [] 6,
      plain [] 6,
      plain [] 8,
      method_fn ''m'' ''m(cb) { cb(null, 2); }'']"

text \<open>
  The scenario of an override after conversion: the base object is converted, the adapter
  found on the object at 10 is called through the object at 9, the derived object gets its
  own \<^verbatim>\<open>m\<close>, and the adapter is called through the object at 10. The result is the value
  of \<^verbatim>\<open>m\<close> on the object at 10 at the end and the outcomes of the two calls.
\<close>

definition override_scenario :: "(val \<times> outcome \<times> outcome) option" where
  "override_scenario =
     (case promisifyAll base_derived (VRef 6) default_options of
        (r, h1) \<Rightarrow>
          (case get_from h1 (VRef 10) ''mAsync'' of
             VRef g \<Rightarrow>
               (case call_adapted h1 g (VRef 9) [] of
                  None \<Rightarrow> None
                | Some (r1, h2) \<Rightarrow>
                    (case call_adapted (set_prop h2 (VRef 8) ''m'' (VRef 11)) g (VRef 10) [] of
                       None \<Rightarrow> None
                     | Some (r2, h3) \<Rightarrow> Some (get_from h3 (VRef 10) ''m'', r1, r2)))
           | _ \<Rightarrow> None))"

text \<open>
  A base object at 6 with the method \<^verbatim>\<open>m\<close> (the function at 7) and a derived object at
  8 that extends it and defines its own \<^verbatim>\<open>m\<close> (the function at 9).
\<close>

definition shadowing :: heap where
  "shadowing = builtins @
     [plain [(''m'', Data (VRef 7))] Object_prototype,
      method_fn ''m'' ''m(cb) { cb(null, 1); }'',
      plain [(''m'', Data (VRef 9))] 6,
      method_fn ''m'' ''m(cb) { cb(null, 2); }'']"

text \<open>
  An object at 6 with the properties \<^verbatim>\<open>Job\<close> (the constructor at 7) and \<^verbatim>\<open>helper\<close>
  (the plain function at 10, whose prototype at 11 has only \<^verbatim>\<open>constructor\<close>). The
  prototype of \<^verbatim>\<open>Job\<close> at 8 has the method \<^verbatim>\<open>run\<close>, and \<^verbatim>\<open>Job\<close> has the static
  function \<^verbatim>\<open>create\<close>; both are the function at 9.
\<close>

definition with_class :: heap where
  "with_class = builtins @
     [plain [(''Job'', Data (VRef 7)), (''helper'', Data (VRef 10))] Object_prototype,
      constructor_fn ''Job'' ''function Job() {}'' 8 [(''create'', Data (VRef 9))],
      plain [(''constructor'', Data (VRef 7)), (''run'', Data (VRef 9))] Object_prototype,
      method_fn ''work'' ''(cb) => cb(null, 1)'',
      constructor_fn ''helper'' ''function helper(cb) { cb(null, 2); }'' 11 [],
      plain [(''constructor'', Data (VRef 10))] Object_prototype]"




text \<open>
  An object at 9 without own properties that inherits \<^verbatim>\<open>m\<close> (the function at 7) and
  \<^verbatim>\<open>F\<close> (the function at 8) from its prototype at 6, where \<^verbatim>\<open>F.prototype\<close> is the object
  at 9 itself and \<^verbatim>\<open>F\<close> has the static function \<^verbatim>\<open>s\<close>.
\<close>

definition aliased :: heap where
  "aliased = builtins @
     [plain [(''m'', Data (VRef 7)), (''F'', Data (VRef 8))] Object_prototype,
      method_fn ''m'' ''(cb) => cb(null, 1)'',
      constructor_fn ''F'' ''function F() {}'' 9 [(''s'', Data (VRef 7))],
      plain [] 6]"



text \<open>The closure of the adapted function at an address.\<close>

definition closure_at :: "heap \<Rightarrow> val \<Rightarrow> closure option" where
  "closure_at h v =
     (case v of
        VRef a \<Rightarrow> (case lookup h a of
                     Some ob \<Rightarrow> (case call ob of Some (Adapted c) \<Rightarrow> Some c | _ \<Rightarrow> None)
                   | None \<Rightarrow> None)
      | _ \<Rightarrow> None)"

section \<open>Recursive equations\<close>

declare get_from.simps [simp del] has_marker.simps [simp del]
declare digits.simps [simp del]

section \<open>The completion callback\<close>

text \<open>
  C1, as the code has it. The callback tests its first argument for truthiness: a truthy
  error rejects the future with that error and the values are ignored; otherwise the future
  is resolved, with the first value (undefined when there is none) when \<open>multiArgs\<close> is
  false, and with \<^verbatim>\<open>Bluebird.all\<close> of the list of all values, in order, when it is true.
\<close>

theorem createResolver_settles:
  "createResolver multiArgs err vals =
     (if truthy err then Reject err
      else if multiArgs then ResolveAll vals
      else Resolve (case vals of [] \<Rightarrow> VUndefined | v # rest \<Rightarrow> v))"
  by (simp add: createResolver_def)

theorem createResolver_settles_witness:
  "createResolver True VNull [VNum 1, VNum 2, VNum 3] = ResolveAll [VNum 1, VNum 2, VNum 3]"
  using createResolver_settles [of True VNull "[VNum 1, VNum 2, VNum 3]"] by simp

text \<open>
  C1 as stated fails: the number 0 is an error argument that is neither null nor
  undefined, and the callback resolves the future instead of rejecting it.
\<close>

theorem createResolver_falsy_error_counterexample:
  "\<not> nullish (VNum 0) \<and> createResolver False (VNum 0) [VNum 5] = Resolve (VNum 5)"
  by (simp add: createResolver_def)

section \<open>The receiver of an adapted function\<close>

text \<open>
  C2 at a concrete input. \<^verbatim>\<open>promisify(f)\<close> with the default context is called through
  the object at 7 and then through the object at 8. The first call assigns its receiver
  to the closure variable \<^verbatim>\<open>context\<close>, which then no longer equals \<^verbatim>\<open>USE_THIS\<close>: the
  second call applies \<^verbatim>\<open>f\<close> to the receiver of the first.
\<close>

theorem promisify_receiver_latched:
  "(case promisify two_receivers (VRef 6) USE_THIS False of
      (h, g) \<Rightarrow>
        g = VRef 9 \<and>
        call_twice h 9 (VRef 7) (VRef 8) [] =
          Some (Applies (VRef 6) (VRef 7) [] False, Applies (VRef 6) (VRef 7) [] False))"
  by code_simp

text \<open>
  The other half of C2 holds: an adapted function built without a lookup key and with a
  fixed context applies the wrapped function to that context at every call, whatever the
  receiver, and its closure stays as it is.
\<close>

lemma fixed_context_used:
  assumes "lookup h g = Some ob" and "call ob = Some (Adapted c)"
    and "c_context c = Ctx v" and "c_dynamicLookupKey c = None"
  shows "call_adapted h g this args = Some (Applies (c_fn c) v args (c_multiArgs c), h)"
proof -
  have c: "c\<lparr>c_context := Ctx v\<rparr> = c" "c\<lparr>c_fn := c_fn c\<rparr> = c" using assms(3) by simp_all
  have ob: "ob\<lparr>call := Some (Adapted c)\<rparr> = ob" using assms(2) by simp
  have h: "h[g := ob] = h"
    using assms(1) by (auto simp: lookup_def split: if_splits)
  show ?thesis
    using assms by (simp add: call_adapted_def Let_def c ob h)
qed

section \<open>The caller's filter\<close>

text \<open>
  C3 at a concrete input. The object \<^verbatim>\<open>{ foo: f, _bar: f }\<close> is converted with a filter
  that returns the opposite of the default verdict. \<^verbatim>\<open>internalPromisifyAll\<close> does not
  hand the filter to \<^verbatim>\<open>getFunctionsToPromisify\<close>, so the default verdict decides:
  \<^verbatim>\<open>fooAsync\<close> is installed although the filter returns false for \<^verbatim>\<open>foo\<close>, and
  \<^verbatim>\<open>_barAsync\<close> is not although the filter returns true for \<^verbatim>\<open>_bar\<close>.
\<close>

theorem promisifyAll_ignores_filter:
  "(case promisifyAll foo_bar (VRef 6)
           (default_options\<lparr>o_filter := Some (\<lambda>key fn ob passes. \<not> passes)\<rparr>) of
      (r, h) \<Rightarrow>
        r = Inr VUndefined \<and>
        getOwnPropertyNames h (VRef 6) = Some [''foo'', ''_bar'', ''fooAsync''] \<and>
        has_marker h (get_from h (VRef 6) ''fooAsync''))"
  by code_simp

text \<open>For every heap, target and options, the filter has no effect on the conversion.\<close>

lemma internalPromisifyAll_filter_unused:
  "internalPromisifyAll h ob suffix filt p m = internalPromisifyAll h ob suffix None p m"
  by (simp add: internalPromisifyAll_def)

lemma class_loop_filter_unused:
  "class_loop ob suffix filt p m keys h = class_loop ob suffix None p m keys h"
proof (induction keys arbitrary: h)
  case Nil
  show ?case by simp
next
  case (Cons key keys)
  show ?case
    using Cons.IH internalPromisifyAll_filter_unused [of _ _ suffix filt p m]
    by (simp add: Let_def split: prod.splits option.splits)
qed

lemma promisifyAll_filter_unused:
  "promisifyAll h ob (opts\<lparr>o_filter := f\<rparr>) = promisifyAll h ob opts"
proof (cases "o_suffix opts")
  case (VStr suffix)
  show ?thesis
    using VStr class_loop_filter_unused [of ob suffix f] class_loop_filter_unused [of ob suffix "o_filter opts"]
      internalPromisifyAll_filter_unused [of _ ob suffix f]
      internalPromisifyAll_filter_unused [of _ ob suffix "o_filter opts"]
    by (auto simp: promisifyAll_def split: prod.splits option.splits)
qed (simp_all add: promisifyAll_def)

section \<open>The value returned by the bulk conversion\<close>

text \<open>
  C8 at a concrete input. \<^verbatim>\<open>promisifyAll({}, {suffix: "Async"})\<close> returns the value of
  \<^verbatim>\<open>internalPromisifyAll\<close>, which is undefined, not the object at 6 it was given.
\<close>

theorem promisifyAll_returns_undefined:
  "promisifyAll empty_object (VRef 6) default_options = (Inr VUndefined, empty_object)"
  by code_simp

text \<open>
  The other half of C8 holds for every heap, target and options: a suffix that is not a
  string matching the identifier pattern gives a \<^verbatim>\<open>RangeError\<close> and the heap of before.
\<close>

lemma promisifyAll_bad_suffix:
  "(\<forall>s. o_suffix opts = VStr s \<longrightarrow> \<not> isIdentifier s) \<Longrightarrow>
     promisifyAll h ob opts = (Inl RangeError, h)"
  by (cases "o_suffix opts") (auto simp: promisifyAll_def)

section \<open>Dynamic lookup after an override\<close>

text \<open>
  C4 at a concrete input. The base object at 6 is converted, which installs
  \<^verbatim>\<open>mAsync\<close> on it. The adapter is called through the object at 9, which inherits from
  the base; then the derived object at 8 gets its own \<^verbatim>\<open>m\<close> (the function at 11); then
  the adapter is called through the object at 10, which inherits from the derived object
  and now sees the function at 11 as its \<^verbatim>\<open>m\<close>. The second call looks \<^verbatim>\<open>m\<close> up
  again, but on the receiver of the first call, and applies the base function at 7 to the
  object at 9.
\<close>

theorem override_after_first_call:
  "override_scenario =
     Some (VRef 11, Applies (VRef 7) (VRef 9) [] False, Applies (VRef 7) (VRef 9) [] False)"
  by code_simp

text \<open>
  The first call of a freshly installed adapter does dispatch on its receiver: it applies
  the function the receiver holds under the key at the time of the call.
\<close>

lemma first_call_dispatches_on_receiver:
  assumes "lookup h g = Some ob" and "call ob = Some (Adapted c)"
    and "c_context c = USE_THIS" and "c_dynamicLookupKey c = Some key" and "key \<noteq> []"
    and "\<not> nullish this"
  shows "\<exists>h1. call_adapted h g this args =
           Some (Applies (get_from h this key) this args (c_multiArgs c), h1)"
  using assms by (simp add: call_adapted_def Let_def get_prop_def)

section \<open>Key discovery\<close>







text \<open>
  The shadowing example of C7: converting the derived object installs one \<^verbatim>\<open>mAsync\<close>, on
  the derived object, whose adapter was built from the derived \<^verbatim>\<open>m\<close> (the function at
  9) and looks \<^verbatim>\<open>m\<close> up on its receiver; the base object keeps its only property.
\<close>

lemma shadowing_installs_derived:
  "(case promisifyAll shadowing (VRef 8) default_options of
      (r, h) \<Rightarrow>
        inheritedDataKeys shadowing (VRef 8) = [''m''] \<and>
        getOwnPropertyNames h (VRef 8) = Some [''m'', ''mAsync''] \<and>
        getOwnPropertyNames h (VRef 6) = Some [''m''] \<and>
        closure_at h (get_from h (VRef 8) ''mAsync'') =
          Some \<lparr>c_fn = VRef 9, c_context = USE_THIS, c_multiArgs = False,
                c_dynamicLookupKey = Some ''m''\<rparr>)"
  by code_simp

section \<open>Recursion into class-like members\<close>




text \<open>
  An example of C6: \<^verbatim>\<open>Job\<close> is class-like, so its prototype gets \<^verbatim>\<open>runAsync\<close> and the
  constructor gets \<^verbatim>\<open>createAsync\<close>; \<^verbatim>\<open>helper\<close> is not, and is only converted itself, like
  \<^verbatim>\<open>Job\<close>, on the target.
\<close>

lemma class_recursion_example:
  "(case promisifyAll with_class (VRef 6) default_options of
      (r, h) \<Rightarrow>
        isClass with_class (VRef 7) \<and> \<not> isClass with_class (VRef 10) \<and>
        getOwnPropertyNames h (VRef 8) = Some [''constructor'', ''run'', ''runAsync''] \<and>
        getOwnPropertyNames h (VRef 7) =
          Some [''length'', ''name'', ''prototype'', ''create'', ''createAsync''] \<and>
        getOwnPropertyNames h (VRef 10) = Some [''length'', ''name'', ''prototype''] \<and>
        getOwnPropertyNames h (VRef 11) = Some [''constructor''] \<and>
        getOwnPropertyNames h (VRef 6) = Some [''Job'', ''helper'', ''JobAsync'', ''helperAsync''])"
  by code_simp

section \<open>Existing properties\<close>



















section \<open>Converting twice\<close>
























lemma accessor_hasPromisified:
  "getOwnPropertyDescriptor h u (k @ suffix) = Some d \<Longrightarrow> is_accessor d \<Longrightarrow>
     hasPromisified h u k suffix = Inr True"
  by (cases d) (auto simp: hasPromisified_def)








declare set_prop.simps [simp del]

































text \<open>
  Objects other than the target can change in the second call even without a promisifier.
  Here the first call gives the target at 9 its first own properties, which makes \<^verbatim>\<open>F\<close>
  class-like; the second call then recurses into \<^verbatim>\<open>F\<close> and installs \<^verbatim>\<open>sAsync\<close> on it.
\<close>

lemma promisifyAll_twice_other_object:
  "getOwnPropertyNames (snd (promisifyAll aliased (VRef 9) default_options)) (VRef 8) =
     Some [''length'', ''name'', ''prototype'', ''s''] \<and>
   getOwnPropertyNames
     (snd (promisifyAll (snd (promisifyAll aliased (VRef 9) default_options)) (VRef 9)
        default_options)) (VRef 8) =
     Some [''length'', ''name'', ''prototype'', ''s'', ''sAsync'']"
  by code_simp

section \<open>Synchronous exceptions of the wrapped function\<close>



end
